theory Spec2Isabelle
  imports Main "HOL-Library.AList" "HOL-Library.Char_ord" "HOL-Library.List_Lexorder"
begin

section \<open>Engagement analytics of the workshop sidekick (zoom\_mcp\_server\_production.py)\<close>

text \<open>
  The three tools of the source that the analytics pipeline consists of are embedded:
  the record built by \<open>track_participant_activity\<close>, \<open>get_participants\<close> and
  \<open>get_engagement_analytics\<close>, together with \<open>get_dynamodb_table\<close>, which both
  readers call first. The AWS services are not part of the program: every call to them is
  an outcome supplied by the environment (record \<open>aws\<close>), either a result or the
  exception the call raises. \<open>datetime.now().isoformat()\<close> is the parameter \<open>now\<close>.
\<close>

subsection \<open>Exceptions\<close>

text \<open>
  The handlers of the source distinguish \<open>ClientError\<close> (botocore) from every other
  exception; \<open>KeyError\<close> is what \<open>item['participant']\<close> raises on a missing key.
  Each exception carries the text that \<open>str(e)\<close> is computed from.
\<close>

datatype exn = ClientError string | KeyError string | OtherException string

text \<open>\<open>str(e)\<close>: the message, and for a \<open>KeyError\<close> the key between single quotes.\<close>

fun str :: "exn \<Rightarrow> string" where
  "str (ClientError m) = m"
| "str (KeyError k) = CHR 0x27 # k @ [CHR 0x27]"
| "str (OtherException m) = m"

subsection \<open>Activity records and JSON values\<close>

text \<open>
  A stored item is a Python dict from attribute names to strings (the five attributes
  written by \<open>track_participant_activity\<close> are all strings).
\<close>

type_synonym item = "string \<rightharpoonup> string"

text \<open>The dict \<open>activity\<close> built at lines 52-58 of \<open>track_participant_activity\<close>.\<close>

definition activity :: "string \<Rightarrow> string \<Rightarrow> string \<Rightarrow> string \<Rightarrow> string \<Rightarrow> item" where
  "activity now participant_name activity_type details session_id =
     [''timestamp'' \<mapsto> now,
      ''participant'' \<mapsto> participant_name,
      ''activity'' \<mapsto> activity_type,
      ''details'' \<mapsto> details,
      ''session_id'' \<mapsto> session_id]"

text \<open>\<open>item[k]\<close> raises \<open>KeyError\<close> on a missing key; \<open>item.get(k, d)\<close> returns the default.\<close>

definition getitem :: "item \<Rightarrow> string \<Rightarrow> exn + string" where
  "getitem item k = (case item k of None \<Rightarrow> Inl (KeyError k) | Some v \<Rightarrow> Inr v)"

definition get_default :: "item \<Rightarrow> string \<Rightarrow> string \<Rightarrow> string" where
  "get_default item k d = (case item k of None \<Rightarrow> d | Some v \<Rightarrow> v)"

text \<open>
  The value handed to \<open>json.dumps\<close>. A Python dict keeps its keys in insertion order and
  \<open>json.dumps\<close> writes them in that order, so an object is a list of pairs.
\<close>

datatype json = JStr string | JInt int | JList "json list" | JObj "(string \<times> json) list"

fun field :: "string \<Rightarrow> json \<Rightarrow> json option" where
  "field k (JObj kvs) = map_of kvs k"
| "field k (JStr s) = None"
| "field k (JInt i) = None"
| "field k (JList js) = None"

subsection \<open>The environment\<close>

text \<open>
  One CloudWatch log event: \<open>json.loads(event['message'])\<close> either raises
  \<open>JSONDecodeError\<close> or yields the decoded activity.
\<close>

datatype log_event = Undecodable | Decoded item

text \<open>
  Outcomes of the AWS calls. \<open>None\<close> in an \<open>exn option\<close> means the call returned.
  \<^item> \<open>table_load\<close>: lines 20-25 (\<open>dynamodb.Table(table_name).load()\<close>);
  \<^item> \<open>dynamodb_client\<close>: line 29; \<open>create_table\<close>: lines 31-43;
  \<^item> \<open>table_query s\<close>: \<open>table.query(...)\<close> for session \<open>s\<close>, giving \<open>response['Items']\<close>;
  \<^item> \<open>logs_client\<close>: \<open>boto3.client('logs')\<close>;
  \<^item> \<open>log_events s\<close>: \<open>get_log_events\<close> on stream \<open>s\<close>, giving \<open>response['events']\<close>.
\<close>

record aws =
  table_load :: "exn option"
  dynamodb_client :: "exn option"
  create_table :: "exn option"
  table_query :: "string \<Rightarrow> exn + item list"
  logs_client :: "exn option"
  log_events :: "string \<Rightarrow> exn + log_event list"

datatype table = Table

text \<open>
  \<open>get_dynamodb_table\<close>: the table, or \<open>None\<close> when it can be neither loaded nor
  created; an exception other than \<open>ClientError\<close> propagates.
\<close>

definition get_dynamodb_table :: "aws \<Rightarrow> exn + table option" where
  "get_dynamodb_table env =
     (case table_load env of
        None \<Rightarrow> Inr (Some Table)
      | Some (ClientError m) \<Rightarrow>
          (case dynamodb_client env of
             Some e \<Rightarrow> Inl e
           | None \<Rightarrow>
               (case create_table env of
                  None \<Rightarrow> Inr (Some Table)
                | Some (ClientError m') \<Rightarrow> Inr None
                | Some e \<Rightarrow> Inl e))
      | Some e \<Rightarrow> Inl e)"

subsection \<open>get\_participants\<close>

record summary =
  name :: string
  status :: string
  join_time :: string
  activity_count :: int
  last_activity :: string

text \<open>
  The dict \<open>participants\<close> is an association list in insertion order; assigning to a new
  key appends, assigning to an old key keeps its place (\<open>AList.update\<close>).
  \<open>add_participant\<close> is the body of the loops at lines 124-136 and 152-164.
\<close>

definition add_participant :: "(string \<times> summary) list \<Rightarrow> item \<Rightarrow> exn + (string \<times> summary) list" where
  "add_participant participants item =
     (case getitem item ''participant'' of
        Inl e \<Rightarrow> Inl e
      | Inr participant \<Rightarrow>
          (case map_of participants participant of
             None \<Rightarrow>
               (case getitem item ''timestamp'' of
                  Inl e \<Rightarrow> Inl e
                | Inr ts \<Rightarrow>
                    Inr (AList.update participant
                          \<lparr>name = participant, status = ''active'', join_time = ts,
                           activity_count = 1, last_activity = ts\<rparr> participants))
           | Some s \<Rightarrow>
               (case getitem item ''timestamp'' of
                  Inl e \<Rightarrow> Inl e
                | Inr ts \<Rightarrow>
                    Inr (AList.update participant
                          (s\<lparr>activity_count := activity_count s + 1, last_activity := ts\<rparr>)
                          participants))))"

text \<open>The loop over \<open>response['Items']\<close> (DynamoDB).\<close>

fun items_loop :: "(string \<times> summary) list \<Rightarrow> item list \<Rightarrow> exn + (string \<times> summary) list" where
  "items_loop participants [] = Inr participants"
| "items_loop participants (item # items) =
     (case add_participant participants item of
        Inl e \<Rightarrow> Inl e
      | Inr participants' \<Rightarrow> items_loop participants' items)"

text \<open>The loop over \<open>response['events']\<close> (CloudWatch): an undecodable message is skipped.\<close>

fun events_loop :: "(string \<times> summary) list \<Rightarrow> log_event list \<Rightarrow> exn + (string \<times> summary) list" where
  "events_loop participants [] = Inr participants"
| "events_loop participants (Undecodable # events) = events_loop participants events"
| "events_loop participants (Decoded a # events) =
     (case add_participant participants a of
        Inl e \<Rightarrow> Inl e
      | Inr participants' \<Rightarrow> events_loop participants' events)"

definition summary_json :: "summary \<Rightarrow> json" where
  "summary_json s =
     JObj [(''name'', JStr (name s)),
           (''status'', JStr (status s)),
           (''join_time'', JStr (join_time s)),
           (''activity_count'', JInt (activity_count s)),
           (''last_activity'', JStr (last_activity s))]"

text \<open>Lines 173-182: the report of the success path.\<close>

definition participants_report :: "(string \<times> summary) list \<Rightarrow> string \<Rightarrow> string \<Rightarrow> json" where
  "participants_report participants session_id now =
     (let participant_list = map snd participants;
          active_count = length (filter (\<lambda>p. status p = ''active'') participant_list)
      in JObj [(''total_participants'', JInt (int (length participant_list))),
               (''participants'', JList (map summary_json participant_list)),
               (''active_count'', JInt (int active_count)),
               (''timestamp'', JStr now),
               (''session_id'', JStr session_id)])"

text \<open>Lines 185-191: the report of the \<open>except Exception\<close> handler.\<close>

definition participants_failure :: "exn \<Rightarrow> string \<Rightarrow> json" where
  "participants_failure e now =
     JObj [(''total_participants'', JInt 0),
           (''participants'', JList []),
           (''active_count'', JInt 0),
           (''error'', JStr (''Failed to get participants: '' @ str e)),
           (''timestamp'', JStr now)]"

text \<open>The body of the outer \<open>try\<close> (lines 115-182).\<close>

definition get_participants_try :: "aws \<Rightarrow> string \<Rightarrow> string \<Rightarrow> exn + json" where
  "get_participants_try env session_id now =
     (case get_dynamodb_table env of
        Inl e \<Rightarrow> Inl e
      | Inr (Some t) \<Rightarrow>
          (case table_query env session_id of
             Inl e \<Rightarrow> Inl e
           | Inr items \<Rightarrow>
               (case items_loop [] items of
                  Inl e \<Rightarrow> Inl e
                | Inr participants \<Rightarrow> Inr (participants_report participants session_id now)))
      | Inr None \<Rightarrow>
          (case logs_client env of
             Some e \<Rightarrow> Inl e
           | None \<Rightarrow>
               (case log_events env session_id of
                  Inl (ClientError m) \<Rightarrow> Inr (participants_report [] session_id now)
                | Inl e \<Rightarrow> Inl e
                | Inr events \<Rightarrow>
                    (case events_loop [] events of
                       Inl e \<Rightarrow> Inl e
                     | Inr participants \<Rightarrow> Inr (participants_report participants session_id now)))))"

text \<open>
  \<open>get_participants\<close>: \<open>Inr\<close> is the value returned to the caller, \<open>Inl\<close> would be an
  exception that reaches the caller.
\<close>

definition get_participants :: "aws \<Rightarrow> string \<Rightarrow> string \<Rightarrow> exn + json" where
  "get_participants env session_id now =
     (case get_participants_try env session_id now of
        Inl e \<Rightarrow> Inr (participants_failure e now)
      | Inr r \<Rightarrow> Inr r)"

subsection \<open>get\_engagement\_analytics\<close>

text \<open>The events loop of lines 219-224: decoded activities are appended, others skipped.\<close>

fun decoded :: "log_event list \<Rightarrow> item list" where
  "decoded [] = []"
| "decoded (Undecodable # events) = decoded events"
| "decoded (Decoded a # events) = a # decoded events"

text \<open>Lines 198-227: the list \<open>activities\<close>, or the exception that leaves the \<open>try\<close>.\<close>

definition read_activities :: "aws \<Rightarrow> string \<Rightarrow> exn + item list" where
  "read_activities env session_id =
     (case get_dynamodb_table env of
        Inl e \<Rightarrow> Inl e
      | Inr (Some t) \<Rightarrow> table_query env session_id
      | Inr None \<Rightarrow>
          (case logs_client env of
             Some e \<Rightarrow> Inl e
           | None \<Rightarrow>
               (case log_events env session_id of
                  Inl (ClientError m) \<Rightarrow> Inr []
                | Inl e \<Rightarrow> Inl e
                | Inr events \<Rightarrow> Inr (decoded events))))"

text \<open>\<open>d[k] = d.get(k, 0) + 1\<close> on a dict of counters.\<close>

definition incr :: "string \<Rightarrow> (string \<times> int) list \<Rightarrow> (string \<times> int) list" where
  "incr k d = AList.update k ((case map_of d k of None \<Rightarrow> 0 | Some c \<Rightarrow> c) + 1) d"

text \<open>Lines 233-240: both tallies in one pass.\<close>

fun count_loop ::
  "(string \<times> int) list \<times> (string \<times> int) list \<Rightarrow> item list \<Rightarrow>
   (string \<times> int) list \<times> (string \<times> int) list" where
  "count_loop (activity_types, participant_activity) [] = (activity_types, participant_activity)"
| "count_loop (activity_types, participant_activity) (a # activities) =
     count_loop
       (incr (get_default a ''activity'' ''unknown'') activity_types,
        incr (get_default a ''participant'' ''unknown'') participant_activity)
       activities"

text \<open>
  \<open>sorted(xs, key=f, reverse=True)\<close>. CPython keeps the sort stable under
  \<open>reverse=True\<close> by reversing the list, sorting it stably in ascending order and
  reversing the result; \<open>sort_key\<close> is a stable insertion sort.
\<close>

definition sorted_reverse :: "('a \<Rightarrow> int) \<Rightarrow> 'a list \<Rightarrow> 'a list" where
  "sorted_reverse f xs = rev (sort_key f (rev xs))"

text \<open>Lines 251-268: the three threshold rules.\<close>

definition recommendations :: "int \<Rightarrow> int \<Rightarrow> int \<Rightarrow> string list" where
  "recommendations engagement_score question_count chat_count =
     (if engagement_score > 70 then [''High engagement detected - workshop is going well'']
      else if engagement_score < 30 then [''Low engagement - consider encouraging more participation'']
      else [])
     @ (if question_count > 5 then [''Many questions being asked - consider extending Q&A time'']
        else if question_count < 2 then [''Few questions - consider prompting for questions'']
        else [])
     @ (if chat_count > 10 then [''Good chat interaction'']
        else [''Encourage more chat participation''])"

definition counts_json :: "(string \<times> int) list \<Rightarrow> json" where
  "counts_json d = JObj (map (\<lambda>(k, c). (k, JInt c)) d)"

text \<open>Lines 229-279: the report computed from \<open>activities\<close>.\<close>

definition calculate_analytics :: "item list \<Rightarrow> string \<Rightarrow> string \<Rightarrow> json" where
  "calculate_analytics activities session_id now =
     (let (activity_types, participant_activity) = count_loop ([], []) activities;
          top_participants = take 5 (sorted_reverse snd participant_activity);
          total_activities = int (length activities);
          unique_participants = int (length participant_activity);
          engagement_score = min 100 ((total_activities * 2) + (unique_participants * 10));
          question_count = (case map_of activity_types ''question'' of None \<Rightarrow> 0 | Some c \<Rightarrow> c);
          chat_count = (case map_of activity_types ''chat_message'' of None \<Rightarrow> 0 | Some c \<Rightarrow> c)
      in JObj [(''total_activities'', JInt total_activities),
               (''unique_participants'', JInt unique_participants),
               (''engagement_score'', JInt engagement_score),
               (''activity_breakdown'', counts_json activity_types),
               (''top_participants'', counts_json top_participants),
               (''recommendations'',
                  JList (map JStr (recommendations engagement_score question_count chat_count))),
               (''session_id'', JStr session_id),
               (''timestamp'', JStr now)])"

text \<open>Lines 282-288: the report of the \<open>except Exception\<close> handler.\<close>

definition analytics_failure :: "exn \<Rightarrow> string \<Rightarrow> json" where
  "analytics_failure e now =
     JObj [(''total_activities'', JInt 0),
           (''unique_participants'', JInt 0),
           (''engagement_score'', JInt 0),
           (''error'', JStr (''Analytics generation failed: '' @ str e)),
           (''timestamp'', JStr now)]"

definition get_engagement_analytics :: "aws \<Rightarrow> string \<Rightarrow> string \<Rightarrow> exn + json" where
  "get_engagement_analytics env session_id now =
     (case read_activities env session_id of
        Inl e \<Rightarrow> Inr (analytics_failure e now)
      | Inr activities \<Rightarrow> Inr (calculate_analytics activities session_id now))"

subsection \<open>Notions used in the statements\<close>

text \<open>The distinct elements of a list, in the order of their first occurrence: the key order of a
  Python dict filled by one pass over the list.\<close>

definition first_names :: "'a list \<Rightarrow> 'a list" where
  "first_names ns = rev (remdups (rev ns))"

text \<open>The position at which an element first occurs in a list.\<close>

definition first_seen :: "'a list \<Rightarrow> 'a \<Rightarrow> nat" where
  "first_seen ns n = length (takeWhile (\<lambda>x. x \<noteq> n) ns)"

text \<open>\<open>activity.get("participant", "unknown")\<close>, the key of the per-participant tally.\<close>

definition participant_of :: "item \<Rightarrow> string" where
  "participant_of a = get_default a ''participant'' ''unknown''"

text \<open>\<open>activity.get("activity", "unknown")\<close>, the key of the per-type tally.\<close>

definition activity_of :: "item \<Rightarrow> string" where
  "activity_of a = get_default a ''activity'' ''unknown''"

text \<open>The dict of counters that one pass over a list of keys produces.\<close>

definition tally :: "string list \<Rightarrow> (string \<times> int) list" where
  "tally ks = map (\<lambda>k. (k, int (count_list ks k))) (first_names ks)"

text \<open>The engagement score as a function of the records read.\<close>

definition score_of :: "item list \<Rightarrow> int" where
  "score_of activities =
     min 100 (int (length activities) * 2 + int (card (set (map participant_of activities))) * 10)"

text \<open>The records an analytics call has read: none when the read raised.\<close>

definition records_read :: "aws \<Rightarrow> string \<Rightarrow> item list" where
  "records_read env session_id =
     (case read_activities env session_id of Inl e \<Rightarrow> [] | Inr activities \<Rightarrow> activities)"

text \<open>An environment in which the table loads and the query returns the given items.\<close>

definition dynamodb_returning :: "item list \<Rightarrow> aws" where
  "dynamodb_returning items =
     \<lparr>table_load = None, dynamodb_client = None, create_table = None,
      table_query = (\<lambda>s. Inr items), logs_client = None, log_events = (\<lambda>s. Inr [])\<rparr>"

text \<open>An environment in which the table loads and the query raises.\<close>

definition dynamodb_failing :: "exn \<Rightarrow> aws" where
  "dynamodb_failing e =
     \<lparr>table_load = None, dynamodb_client = None, create_table = None,
      table_query = (\<lambda>s. Inl e), logs_client = None, log_events = (\<lambda>s. Inr [])\<rparr>"

text \<open>An environment in which the table can be neither loaded nor created, so that the CloudWatch
  fallback is taken, with the given outcome of \<open>get_log_events\<close>.\<close>

definition logs_fallback :: "exn + log_event list \<Rightarrow> aws" where
  "logs_fallback outcome =
     \<lparr>table_load = Some (ClientError ''ResourceNotFoundException''),
      dynamodb_client = None,
      create_table = Some (ClientError ''AccessDeniedException''),
      table_query = (\<lambda>s. Inl (ClientError ''ResourceNotFoundException'')),
      logs_client = None, log_events = (\<lambda>s. outcome)\<rparr>"

text \<open>The records of the Alice and Bob scenario, for any timestamps and details.\<close>

definition alice_questions :: "(string \<times> string) list \<Rightarrow> item list" where
  "alice_questions xs = map (\<lambda>(t, d). activity t ''Alice'' ''question'' d ''s1'') xs"

definition bob_chats :: "(string \<times> string) list \<Rightarrow> item list" where
  "bob_chats ys = map (\<lambda>(t, d). activity t ''Bob'' ''chat_message'' d ''s1'') ys"

text \<open>One concrete run of the scenario.\<close>

definition six_questions :: "(string \<times> string) list" where
  "six_questions =
     [(''2024-05-01T09:00:01'', ''q1''), (''2024-05-01T09:00:02'', ''q2''),
      (''2024-05-01T09:00:03'', ''q3''), (''2024-05-01T09:00:04'', ''q4''),
      (''2024-05-01T09:00:05'', ''q5''), (''2024-05-01T09:00:06'', ''q6'')]"

definition eleven_chats :: "(string \<times> string) list" where
  "eleven_chats =
     [(''2024-05-01T09:01:01'', ''m1''), (''2024-05-01T09:01:02'', ''m2''),
      (''2024-05-01T09:01:03'', ''m3''), (''2024-05-01T09:01:04'', ''m4''),
      (''2024-05-01T09:01:05'', ''m5''), (''2024-05-01T09:01:06'', ''m6''),
      (''2024-05-01T09:01:07'', ''m7''), (''2024-05-01T09:01:08'', ''m8''),
      (''2024-05-01T09:01:09'', ''m9''), (''2024-05-01T09:01:10'', ''m10''),
      (''2024-05-01T09:01:11'', ''m11'')]"

definition scenario_records :: "item list" where
  "scenario_records = alice_questions six_questions @ bob_chats eleven_chats"

text \<open>Nine records of six participants, three of them tied at two records.\<close>

definition tie_records :: "item list" where
  "tie_records =
     [activity ''2024-05-01T09:00:01'' ''Alice'' ''chat_message'' ''a'' ''s1'',
      activity ''2024-05-01T09:00:02'' ''Bob'' ''question'' ''b'' ''s1'',
      activity ''2024-05-01T09:00:03'' ''Carol'' ''chat_message'' ''c'' ''s1'',
      activity ''2024-05-01T09:00:04'' ''Carol'' ''chat_message'' ''d'' ''s1'',
      activity ''2024-05-01T09:00:05'' ''Dave'' ''question'' ''e'' ''s1'',
      activity ''2024-05-01T09:00:06'' ''Erin'' ''chat_message'' ''f'' ''s1'',
      activity ''2024-05-01T09:00:07'' ''Frank'' ''chat_message'' ''g'' ''s1'',
      activity ''2024-05-01T09:00:08'' ''Frank'' ''chat_message'' ''h'' ''s1'',
      activity ''2024-05-01T09:00:09'' ''Bob'' ''question'' ''i'' ''s1'']"

text \<open>
  One call of \<open>track_participant_activity\<close>: the timestamp it took and its arguments
  \<open>participant_name\<close>, \<open>activity_type\<close> and \<open>details\<close>.
\<close>

record call =
  call_time :: string
  call_participant :: string
  call_activity :: string
  call_details :: string

text \<open>The record that a call in session \<open>session_id\<close> stores.\<close>

definition tracked :: "string \<Rightarrow> call \<Rightarrow> item" where
  "tracked session_id c =
     activity (call_time c) (call_participant c) (call_activity c) (call_details c) session_id"

text \<open>The calls of one participant, in the order of the list.\<close>

definition calls_of :: "string \<Rightarrow> call list \<Rightarrow> call list" where
  "calls_of n calls = filter (\<lambda>c. call_participant c = n) calls"

text \<open>
  The summary of a participant who has at least one call: first and last timestamp in
  the order of the list, and the number of calls.
\<close>

definition summary_of :: "call list \<Rightarrow> string \<Rightarrow> summary" where
  "summary_of calls n =
     \<lparr>name = n, status = ''active'',
      join_time = call_time (hd (calls_of n calls)),
      activity_count = int (length (calls_of n calls)),
      last_activity = call_time (last (calls_of n calls))\<rparr>"

fun is_client_error :: "exn \<Rightarrow> bool" where
  "is_client_error (ClientError m) = True"
| "is_client_error (KeyError k) = False"
| "is_client_error (OtherException m) = False"

definition sample_calls :: "call list" where
  "sample_calls =
     [\<lparr>call_time = ''2024-05-01T09:00:01.250000'', call_participant = ''Alice'',
       call_activity = ''question'', call_details = ''How do I rotate keys?''\<rparr>,
      \<lparr>call_time = ''2024-05-01T09:00:07'', call_participant = ''Bob'',
       call_activity = ''chat_message'', call_details = ''hello''\<rparr>,
      \<lparr>call_time = ''2024-05-01T09:02:30.000100'', call_participant = ''Alice'',
       call_activity = ''chat_message'', call_details = ''thanks''\<rparr>]"

text \<open>
  Two log events of one participant whose records carry local times in descending order
  (the clock was set back an hour between the two calls).
\<close>

definition clock_set_back_events :: "log_event list" where
  "clock_set_back_events =
     [Decoded (activity ''2024-10-27T01:59:30'' ''Alice'' ''question'' ''q'' ''s1''),
      Decoded (activity ''2024-10-27T01:00:10'' ''Alice'' ''chat_message'' ''m'' ''s1'')]"

section \<open>Auxiliary facts\<close>

lemma first_names_snoc:
  "first_names (ns @ [n]) = (if n \<in> set ns then first_names ns else first_names ns @ [n])"
  by (simp add: first_names_def)

lemma set_first_names [simp]: "set (first_names ns) = set ns"
  by (simp add: first_names_def)

lemma distinct_first_names [simp]: "distinct (first_names ns)"
  by (simp add: first_names_def)

lemma length_first_names: "length (first_names ns) = card (set ns)"
  by (simp add: first_names_def length_remdups_card_conv)

lemma map_of_tabulate:
  "map_of (map (\<lambda>n. (n, f n)) ns) k = (if k \<in> set ns then Some (f k) else None)"
  by (induction ns) auto

lemma update_tabulate:
  "distinct ns \<Longrightarrow>
   AList.update p v (map (\<lambda>n. (n, f n)) ns) =
     (if p \<in> set ns then map (\<lambda>n. (n, if n = p then v else f n)) ns
      else map (\<lambda>n. (n, f n)) ns @ [(p, v)])"
  by (induction ns) auto

lemma incr_tabulate:
  "incr k (map (\<lambda>n. (n, int (count_list ks n))) (first_names ks)) =
   map (\<lambda>n. (n, int (count_list (ks @ [k]) n))) (first_names (ks @ [k]))"
  by (auto simp: incr_def map_of_tabulate update_tabulate first_names_snoc)

lemma tally_counts:
  "foldl (\<lambda>d k. incr k d) [] ks = map (\<lambda>n. (n, int (count_list ks n))) (first_names ks)"
proof (induction ks rule: rev_induct)
  case Nil
  show ?case by (simp add: first_names_def)
next
  case (snoc k ks)
  then show ?case by (simp add: incr_tabulate del: count_list_append)
qed

lemma count_loop_foldl:
  "count_loop (ats, pas) acts =
     (foldl (\<lambda>d k. incr k d) ats (map (\<lambda>a. get_default a ''activity'' ''unknown'') acts),
      foldl (\<lambda>d k. incr k d) pas (map (\<lambda>a. get_default a ''participant'' ''unknown'') acts))"
  by (induction acts arbitrary: ats pas) simp_all

lemma insort_key_lex:
  assumes "sorted_wrt (\<lambda>a b. f a < f b \<or> (f a = f b \<and> R a b)) ys"
    and "\<forall>y\<in>set ys. R z y"
  shows "sorted_wrt (\<lambda>a b. f a < f b \<or> (f a = f b \<and> R a b)) (insort_key f z ys)"
  using assms
proof (induction ys)
  case Nil
  then show ?case by simp
next
  case (Cons y ys)
  show ?case
  proof (cases "f z \<le> f y")
    case True
    have "f z < f w \<or> (f z = f w \<and> R z w)" if "w \<in> set (y # ys)" for w
    proof -
      have "f y \<le> f w" using that Cons.prems(1) by auto
      moreover have "R z w" using that Cons.prems(2) by auto
      ultimately show ?thesis using True by auto
    qed
    then show ?thesis using True Cons.prems(1) by simp
  next
    case False
    then show ?thesis using Cons by (auto simp: set_insort_key)
  qed
qed

lemma sort_key_lex:
  fixes f :: "'a \<Rightarrow> int"
  assumes "sorted_wrt R xs"
  shows "sorted_wrt (\<lambda>a b. f a < f b \<or> (f a = f b \<and> R a b)) (sort_key f xs)"
  using assms
proof (induction xs)
  case Nil
  then show ?case by simp
next
  case (Cons x xs)
  have "sorted_wrt (\<lambda>a b. f a < f b \<or> (f a = f b \<and> R a b)) (insort_key f x (sort_key f xs))"
    using Cons by (intro insort_key_lex) auto
  then show ?case by simp
qed

lemma sorted_reverse_lex:
  assumes "sorted_wrt Q xs"
  shows "sorted_wrt (\<lambda>a b. f b < f a \<or> (f a = f b \<and> Q a b)) (sorted_reverse f xs)"
proof -
  have "sorted_wrt (\<lambda>a b. Q b a) (rev xs)"
    using assms by (simp add: sorted_wrt_rev)
  then have "sorted_wrt (\<lambda>a b. f a < f b \<or> (f a = f b \<and> Q b a)) (sort_key f (rev xs))"
    by (rule sort_key_lex)
  then have "sorted_wrt (\<lambda>a b. f b < f a \<or> (f b = f a \<and> Q a b)) (sorted_reverse f xs)"
    by (simp add: sorted_reverse_def sorted_wrt_rev)
  then show ?thesis
    by (rule sorted_wrt_mono_rel[rotated]) auto
qed

lemma set_sorted_reverse [simp]: "set (sorted_reverse f xs) = set xs"
  by (simp add: sorted_reverse_def)

lemma distinct_sorted_reverse: "distinct (map g (sorted_reverse f xs)) = distinct (map g xs)"
  by (simp add: sorted_reverse_def distinct_map inj_on_def)

lemma first_seen_append:
  "n \<in> set ns \<Longrightarrow> first_seen (ns @ ms) n = first_seen ns n"
  by (simp add: first_seen_def)

lemma first_seen_less: "n \<in> set ns \<Longrightarrow> first_seen ns n < length ns"
  unfolding first_seen_def by (induction ns) auto

lemma first_seen_new: "n \<notin> set ns \<Longrightarrow> first_seen (ns @ [n]) n = length ns"
  unfolding first_seen_def by (induction ns) auto

lemma first_names_by_first_seen:
  "sorted_wrt (\<lambda>a b. first_seen ns a < first_seen ns b) (first_names ns)"
proof (induction ns rule: rev_induct)
  case Nil
  show ?case by (simp add: first_names_def)
next
  case (snoc n ns)
  have old: "sorted_wrt (\<lambda>a b. first_seen (ns @ [n]) a < first_seen (ns @ [n]) b) (first_names ns)"
    using snoc by (rule sorted_wrt_mono_rel[rotated]) (simp add: first_seen_append)
  show ?case
  proof (cases "n \<in> set ns")
    case True
    then show ?thesis using old by (simp add: first_names_snoc)
  next
    case False
    then show ?thesis using old
      by (simp add: first_names_snoc sorted_wrt_append first_seen_new first_seen_append first_seen_less)
  qed
qed

lemma count_loop_tally:
  "count_loop ([], []) acts = (tally (map activity_of acts), tally (map participant_of acts))"
proof -
  have "activity_of = (\<lambda>a. get_default a ''activity'' ''unknown'')"
    and "participant_of = (\<lambda>a. get_default a ''participant'' ''unknown'')"
    by (simp_all add: fun_eq_iff activity_of_def participant_of_def)
  then show ?thesis
    by (simp add: count_loop_foldl tally_counts tally_def)
qed

lemma map_of_tally:
  "(case map_of (tally ks) k of None \<Rightarrow> 0 | Some c \<Rightarrow> c) = int (count_list ks k)"
  by (simp add: tally_def map_of_tabulate)

lemma length_tally: "length (tally ks) = card (set ks)"
  by (simp add: tally_def length_first_names)

lemma calculate_analytics_tally:
  "calculate_analytics acts sid now =
     JObj [(''total_activities'', JInt (int (length acts))),
           (''unique_participants'', JInt (int (card (set (map participant_of acts))))),
           (''engagement_score'', JInt (score_of acts)),
           (''activity_breakdown'', counts_json (tally (map activity_of acts))),
           (''top_participants'',
              counts_json (take 5 (sorted_reverse snd (tally (map participant_of acts))))),
           (''recommendations'',
              JList (map JStr (recommendations (score_of acts)
                (int (count_list (map activity_of acts) ''question''))
                (int (count_list (map activity_of acts) ''chat_message''))))),
           (''session_id'', JStr sid),
           (''timestamp'', JStr now)]"
  by (simp add: calculate_analytics_def Let_def count_loop_tally map_of_tally length_tally score_of_def
      del: count_list.simps)

lemma score_field:
  "field ''engagement_score'' (calculate_analytics acts sid now) = Some (JInt (score_of acts))"
  by (simp add: calculate_analytics_tally)

lemma score_mono: "score_of acts \<le> score_of (acts @ [a])"
proof -
  have "card (set (map participant_of acts)) \<le> card (set (map participant_of (acts @ [a])))"
    by (intro card_mono) auto
  then show ?thesis by (simp add: score_of_def)
qed

lemma score_le_100: "score_of acts \<le> 100"
  by (simp add: score_of_def)

lemma read_dynamodb_returning: "read_activities (dynamodb_returning items) s = Inr items"
  by (simp add: read_activities_def get_dynamodb_table_def dynamodb_returning_def)

lemma read_dynamodb_failing: "read_activities (dynamodb_failing e) s = Inl e"
  by (simp add: read_activities_def get_dynamodb_table_def dynamodb_failing_def)

lemma get_table_logs_fallback: "get_dynamodb_table (logs_fallback outcome) = Inr None"
  by (simp add: get_dynamodb_table_def logs_fallback_def)

lemma recommendations_shape:
  "1 \<le> length (recommendations s q c) \<and> length (recommendations s q c) \<le> 3 \<and>
   last (recommendations s q c) = (if c > 10 then ''Good chat interaction'' else ''Encourage more chat participation'') \<and>
   count_list (recommendations s q c) ''Good chat interaction'' +
     count_list (recommendations s q c) ''Encourage more chat participation'' = 1"
  by (simp add: recommendations_def)

lemma sorted_wrt_tally_first_seen:
  "sorted_wrt (\<lambda>a b. first_seen ks (fst a) < first_seen ks (fst b)) (tally ks)"
  using first_names_by_first_seen[of ks]
  by (simp add: tally_def sorted_wrt_map)

lemma tally_snd: "p \<in> set (tally ks) \<Longrightarrow> snd p = int (count_list ks (fst p))"
  by (auto simp: tally_def)

lemma tally_fst: "map fst (tally ks) = first_names ks"
  by (simp add: tally_def comp_def)

lemma participant_of_activity [simp]: "participant_of (activity t p a d s) = p"
  by (simp add: participant_of_def get_default_def activity_def)

lemma activity_of_activity [simp]: "activity_of (activity t p a d s) = a"
  by (simp add: activity_of_def get_default_def activity_def)

lemma scenario_keys:
  "map participant_of (alice_questions xs @ bob_chats ys) =
     replicate (length xs) ''Alice'' @ replicate (length ys) ''Bob''"
  "map activity_of (alice_questions xs @ bob_chats ys) =
     replicate (length xs) ''question'' @ replicate (length ys) ''chat_message''"
  by (simp_all add: alice_questions_def bob_chats_def split_def comp_def map_replicate_const)

lemma scenario_calculated:
  assumes "length xs = 6" and "length ys = 11"
  shows "calculate_analytics (alice_questions xs @ bob_chats ys) sid now =
     JObj [(''total_activities'', JInt 17),
           (''unique_participants'', JInt 2),
           (''engagement_score'', JInt 54),
           (''activity_breakdown'', JObj [(''question'', JInt 6), (''chat_message'', JInt 11)]),
           (''top_participants'', JObj [(''Bob'', JInt 11), (''Alice'', JInt 6)]),
           (''recommendations'',
              JList [JStr ''Many questions being asked - consider extending Q&A time'',
                     JStr ''Good chat interaction'']),
           (''session_id'', JStr sid),
           (''timestamp'', JStr now)]"
proof -
  have t1: "tally (replicate 6 ''Alice'' @ replicate 11 ''Bob'') = [(''Alice'', 6), (''Bob'', 11)]"
    by (simp add: tally_def first_names_def numeral_eq_Suc)
  have t2: "tally (replicate 6 ''question'' @ replicate 11 ''chat_message'') =
      [(''question'', 6), (''chat_message'', 11)]"
    by (simp add: tally_def first_names_def numeral_eq_Suc)
  have c: "count_list (replicate 6 ''question'' @ replicate 11 ''chat_message'') ''question'' = 6"
    "count_list (replicate 6 ''question'' @ replicate 11 ''chat_message'') ''chat_message'' = 11"
    by (simp_all add: numeral_eq_Suc)
  have k: "set (replicate 6 ''Alice'' @ replicate 11 ''Bob'') = {''Alice'', ''Bob''}"
    by auto
  have len: "length (alice_questions xs @ bob_chats ys) = 17"
    using assms by (simp add: alice_questions_def bob_chats_def)
  have s: "score_of (alice_questions xs @ bob_chats ys) = 54"
    unfolding score_of_def scenario_keys len assms k by simp
  show ?thesis
    unfolding calculate_analytics_tally scenario_keys s len assms t1 t2 c k
    by (simp add: recommendations_def counts_json_def sorted_reverse_def)
qed

lemma scenario_lengths: "length six_questions = 6" "length eleven_chats = 11"
  by (simp_all add: six_questions_def eleven_chats_def)

text \<open>The ranking of \<open>tie_records\<close>, computed from the definitions alone.\<close>

lemma tie_records_top:
  "field ''top_participants'' (calculate_analytics tie_records ''s1'' now) =
     Some (JObj [(''Bob'', JInt 2), (''Carol'', JInt 2), (''Frank'', JInt 2),
                 (''Alice'', JInt 1), (''Dave'', JInt 1)])"
  by (simp add: calculate_analytics_def tie_records_def incr_def get_default_def activity_def
      sorted_reverse_def counts_json_def)

lemma items_loop_append:
  "items_loop ps (xs @ ys) =
     (case items_loop ps xs of Inl e \<Rightarrow> Inl e | Inr ps' \<Rightarrow> items_loop ps' ys)"
  by (induction xs arbitrary: ps) (simp_all split: sum.splits)

lemma events_loop_decoded: "events_loop ps events = items_loop ps (decoded events)"
  by (induction ps events rule: events_loop.induct) (simp_all split: sum.splits)

lemma get_participants_try_read:
  "get_participants_try env sid now =
     (case read_activities env sid of
        Inl e \<Rightarrow> Inl e
      | Inr acts \<Rightarrow>
          (case items_loop [] acts of
             Inl e \<Rightarrow> Inl e
           | Inr ps \<Rightarrow> Inr (participants_report ps sid now)))"
  by (auto simp: get_participants_try_def read_activities_def events_loop_decoded
      split: sum.splits option.splits exn.splits)

lemma getitem_tracked:
  "getitem (tracked sid c) ''participant'' = Inr (call_participant c)"
  "getitem (tracked sid c) ''timestamp'' = Inr (call_time c)"
  by (simp_all add: getitem_def tracked_def activity_def)

lemma calls_of_snoc:
  "calls_of n (calls @ [c]) = (if call_participant c = n then calls_of n calls @ [c] else calls_of n calls)"
  by (simp add: calls_of_def)

lemma calls_of_nonempty: "n \<in> set (map call_participant calls) \<Longrightarrow> calls_of n calls \<noteq> []"
  by (auto simp: calls_of_def filter_empty_conv)

lemma calls_of_empty: "n \<notin> set (map call_participant calls) \<Longrightarrow> calls_of n calls = []"
  by (auto simp: calls_of_def filter_empty_conv)

lemma add_participant_tracked:
  "add_participant
     (map (\<lambda>n. (n, summary_of calls n)) (first_names (map call_participant calls)))
     (tracked sid c) =
   Inr (map (\<lambda>n. (n, summary_of (calls @ [c]) n))
          (first_names (map call_participant (calls @ [c]))))"
proof (cases "call_participant c \<in> set (map call_participant calls)")
  case True
  then have ne: "calls_of (call_participant c) calls \<noteq> []"
    by (rule calls_of_nonempty)
  show ?thesis
    using True ne
    by (simp add: add_participant_def getitem_tracked map_of_tabulate update_tabulate
        first_names_snoc summary_of_def calls_of_snoc)
next
  case False
  then have "calls_of (call_participant c) calls = []"
    by (rule calls_of_empty)
  with False show ?thesis
    by (auto simp: add_participant_def getitem_tracked map_of_tabulate update_tabulate
        first_names_snoc summary_of_def calls_of_snoc)
qed

lemma items_loop_tracked:
  "items_loop [] (map (tracked sid) calls) =
     Inr (map (\<lambda>n. (n, summary_of calls n)) (first_names (map call_participant calls)))"
proof (induction calls rule: rev_induct)
  case Nil
  show ?case by (simp add: first_names_def)
next
  case (snoc c calls)
  have "items_loop [] (map (tracked sid) (calls @ [c])) =
      add_participant
        (map (\<lambda>n. (n, summary_of calls n)) (first_names (map call_participant calls)))
        (tracked sid c)"
    using snoc by (simp add: items_loop_append split: sum.splits)
  then show ?case
    by (simp only: add_participant_tracked)
qed

lemma field_participants_report:
  "field ''participants'' (participants_report ps sid now) = Some (JList (map summary_json (map snd ps)))"
  "field ''total_participants'' (participants_report ps sid now) = Some (JInt (int (length ps)))"
  "field ''error'' (participants_report ps sid now) = None"
  by (simp_all add: participants_report_def)

lemma get_participants_tracked:
  assumes "read_activities env sid = Inr (map (tracked sid) calls)"
  shows "get_participants env sid now =
     Inr (participants_report
            (map (\<lambda>n. (n, summary_of calls n)) (first_names (map call_participant calls))) sid now)"
  using assms
  by (simp add: get_participants_def get_participants_try_read items_loop_tracked)

lemma length_calls_of: "length (calls_of n calls) = count_list (map call_participant calls) n"
  by (induction calls) (simp_all add: calls_of_def)

lemma sorted_hd_Min:
  fixes xs :: "'a::linorder list"
  shows "sorted xs \<Longrightarrow> xs \<noteq> [] \<Longrightarrow> hd xs = Min (set xs)"
  by (cases xs) (auto intro!: Min_eqI[symmetric])

lemma sorted_last_Max:
  fixes xs :: "'a::linorder list"
  shows "sorted xs \<Longrightarrow> xs \<noteq> [] \<Longrightarrow> last xs = Max (set xs)"
  by (induction xs) (auto intro!: Max_eqI[symmetric] simp: max_def)

lemma sorted_calls_of:
  assumes "sorted (map call_time calls)" and "n \<in> set (map call_participant calls)"
  shows "call_time (hd (calls_of n calls)) = Min (call_time ` set (calls_of n calls))"
    and "call_time (last (calls_of n calls)) = Max (call_time ` set (calls_of n calls))"
    and "call_time (hd (calls_of n calls)) \<le> call_time (last (calls_of n calls))"
proof -
  let ?ts = "map call_time (calls_of n calls)"
  have ne: "calls_of n calls \<noteq> []"
    using assms(2) by (rule calls_of_nonempty)
  have s: "sorted ?ts"
    using assms(1) unfolding calls_of_def by (rule sorted_filter)
  have "hd ?ts = Min (set ?ts)" using s ne by (intro sorted_hd_Min) simp_all
  then show 1: "call_time (hd (calls_of n calls)) = Min (call_time ` set (calls_of n calls))"
    using ne by (simp add: hd_map)
  have "last ?ts = Max (set ?ts)" using s ne by (intro sorted_last_Max) simp_all
  then show 2: "call_time (last (calls_of n calls)) = Max (call_time ` set (calls_of n calls))"
    using ne by (simp add: last_map)
  show "call_time (hd (calls_of n calls)) \<le> call_time (last (calls_of n calls))"
  proof -
    have "hd (calls_of n calls) \<in> set (calls_of n calls)"
      using ne by simp
    then have "Min (call_time ` set (calls_of n calls)) \<le> call_time (hd (calls_of n calls))"
      and "call_time (hd (calls_of n calls)) \<le> Max (call_time ` set (calls_of n calls))"
      by simp_all
    then show ?thesis unfolding 2 by simp
  qed
qed

lemma sample_calls_sorted: "sorted (map call_time sample_calls)"
  by (simp add: sample_calls_def less_eq_char_def less_char_def)

text \<open>The report of \<open>sample_calls\<close>, computed from the definitions alone.\<close>

lemma sample_calls_report:
  "get_participants (dynamodb_returning (map (tracked ''s1'') sample_calls)) ''s1'' ''2024-05-01T10:00:00'' =
     Inr (JObj
       [(''total_participants'', JInt 2),
        (''participants'', JList
           [JObj [(''name'', JStr ''Alice''), (''status'', JStr ''active''),
                  (''join_time'', JStr ''2024-05-01T09:00:01.250000''),
                  (''activity_count'', JInt 2),
                  (''last_activity'', JStr ''2024-05-01T09:02:30.000100'')],
            JObj [(''name'', JStr ''Bob''), (''status'', JStr ''active''),
                  (''join_time'', JStr ''2024-05-01T09:00:07''),
                  (''activity_count'', JInt 1),
                  (''last_activity'', JStr ''2024-05-01T09:00:07'')]]),
        (''active_count'', JInt 2),
        (''timestamp'', JStr ''2024-05-01T10:00:00''),
        (''session_id'', JStr ''s1'')])"
  by (simp add: get_participants_def get_participants_try_def get_dynamodb_table_def
      dynamodb_returning_def sample_calls_def tracked_def activity_def add_participant_def
      getitem_def participants_report_def summary_json_def)

lemma get_participants_returns: "\<exists>r. get_participants env sid now = Inr r"
  by (simp add: get_participants_def split: sum.splits)

lemma field_participants_failure:
  "field ''participants'' (participants_failure e now) = Some (JList [])"
  "field ''total_participants'' (participants_failure e now) = Some (JInt 0)"
  "field ''error'' (participants_failure e now) =
     Some (JStr (''Failed to get participants: '' @ str e))"
  by (simp_all add: participants_failure_def)

lemma read_failed_dynamodb:
  "(get_dynamodb_table (dynamodb_failing e) = Inr (Some Table) \<and>
    table_query (dynamodb_failing e) sid = Inl e) \<or>
   (get_dynamodb_table (dynamodb_failing e) = Inr None \<and> logs_client (dynamodb_failing e) = None \<and>
    log_events (dynamodb_failing e) sid = Inl e)"
  by (simp add: get_dynamodb_table_def dynamodb_failing_def)

lemma sorted_wrt_unique:
  assumes asym: "\<And>a b. R a b \<Longrightarrow> \<not> R b a"
    and "sorted_wrt R xs" and "sorted_wrt R ys" and "set xs = set ys"
  shows "xs = ys"
  using assms(2-)
proof (induction xs arbitrary: ys)
  case Nil
  then show ?case by simp
next
  case (Cons x xs)
  then obtain y ys' where ys: "ys = y # ys'"
    by (cases ys) auto
  have irrefl: "\<not> R a a" for a using asym by blast
  have xy: "x = y"
  proof (rule ccontr)
    assume ne: "x \<noteq> y"
    then have "x \<in> set ys'" and "y \<in> set xs"
      using Cons.prems(3) ys by auto
    then have "R y x" and "R x y"
      using Cons.prems(1,2) ys by auto
    then show False using asym by blast
  qed
  have "x \<notin> set xs" and "y \<notin> set ys'"
    using Cons.prems(1,2) ys irrefl by auto
  then have "set xs = set ys'"
    using Cons.prems(3) ys xy by auto
  then have "xs = ys'"
    using Cons.IH Cons.prems(1,2) ys by simp
  then show ?case using xy ys by simp
qed

lemma full_ranking:
  fixes ks :: "string list"
  defines "full \<equiv> sorted_reverse snd (tally ks)"
  shows "distinct (map fst full)"
    and "set (map fst full) = set ks"
    and "length full = card (set ks)"
    and "map snd full = map (\<lambda>n. int (count_list ks n)) (map fst full)"
    and "sorted_wrt (\<lambda>a b. snd b \<le> snd a) full"
    and "sorted_wrt (\<lambda>a b. snd b < snd a \<or>
           (snd a = snd b \<and> first_seen ks (fst a) < first_seen ks (fst b))) full"
proof -
  show "distinct (map fst full)"
    by (simp add: full_def distinct_sorted_reverse tally_fst)
  show "set (map fst full) = set ks"
    using tally_fst[of ks] by (simp add: full_def) (metis list.set_map set_first_names)
  show "length full = card (set ks)"
    by (simp add: full_def sorted_reverse_def length_tally)
  have "snd p = int (count_list ks (fst p))" if "p \<in> set full" for p
    using that tally_snd by (simp add: full_def)
  then show "map snd full = map (\<lambda>n. int (count_list ks n)) (map fst full)"
    by simp
  show lex: "sorted_wrt (\<lambda>a b. snd b < snd a \<or>
           (snd a = snd b \<and> first_seen ks (fst a) < first_seen ks (fst b))) full"
    unfolding full_def by (rule sorted_reverse_lex[OF sorted_wrt_tally_first_seen])
  show "sorted_wrt (\<lambda>a b. snd b \<le> snd a) full"
    using lex by (rule sorted_wrt_mono_rel[rotated]) auto
qed

text \<open>
  The properties of \<open>full_ranking\<close> leave no choice: a list of all participants with
  their counts that is ordered by count, then by first appearance, is the ranking.
\<close>

lemma full_ranking_unique:
  fixes ks :: "string list" and xs ys :: "(string \<times> int) list"
  assumes "sorted_wrt (\<lambda>a b. snd b < snd a \<or>
             (snd a = snd b \<and> first_seen ks (fst a) < first_seen ks (fst b))) xs"
    and "sorted_wrt (\<lambda>a b. snd b < snd a \<or>
             (snd a = snd b \<and> first_seen ks (fst a) < first_seen ks (fst b))) ys"
    and "set (map fst xs) = set (map fst ys)"
    and "map snd xs = map (\<lambda>n. int (count_list ks n)) (map fst xs)"
    and "map snd ys = map (\<lambda>n. int (count_list ks n)) (map fst ys)"
  shows "xs = ys"
proof -
  have px: "snd p = int (count_list ks (fst p))" if "p \<in> set xs" for p
    using assms(4) that by simp
  have py: "snd p = int (count_list ks (fst p))" if "p \<in> set ys" for p
    using assms(5) that by simp
  have "set xs = set ys"
  proof (intro set_eqI iffI)
    fix p assume p: "p \<in> set xs"
    then have "fst p \<in> set (map fst ys)" using assms(3) by (metis imageI list.set_map)
    then obtain q where q: "q \<in> set ys" "fst q = fst p" by auto
    then have "snd q = snd p" using px[OF p] py[OF q(1)] by simp
    then show "p \<in> set ys" using q by (metis prod.collapse)
  next
    fix p assume p: "p \<in> set ys"
    then have "fst p \<in> set (map fst xs)" using assms(3) by (metis imageI list.set_map)
    then obtain q where q: "q \<in> set xs" "fst q = fst p" by auto
    then have "snd q = snd p" using py[OF p] px[OF q(1)] by simp
    then show "p \<in> set xs" using q by (metis prod.collapse)
  qed
  then show ?thesis
    using assms(1,2) by (intro sorted_wrt_unique[where xs = xs and ys = ys]) auto
qed

section \<open>The claims\<close>

text \<open>
  Claim C1: the engagement score in the report of \<open>get_engagement_analytics\<close> is
  \<open>min(100, total_activities * 2 + unique_participants * 10)\<close>, where \<open>total_activities\<close> is the
  number of records read for the session and \<open>unique_participants\<close> the number of distinct
  participant names among them. When the read raises, no record was read and the score is 0.
\<close>

theorem engagement_score_formula:
  "\<exists>r. get_engagement_analytics env session_id now = Inr r \<and>
       field ''engagement_score'' r =
         Some (JInt (min 100 (int (length (records_read env session_id)) * 2 +
           int (card (set (map participant_of (records_read env session_id)))) * 10)))"
  by (cases "read_activities env session_id")
     (simp_all add: get_engagement_analytics_def records_read_def analytics_failure_def
        calculate_analytics_tally score_of_def)

text \<open>
  Claim C2, as amended: for 6 records (Alice, question) followed by 11 records (Bob,
  chat\_message) in session s1, the analytics report has the breakdown question 6,
  chat\_message 11, 2 unique participants, the extend-Q&A line and the good-chat line, and
  engagement score \<open>min(100, 17 * 2 + 2 * 10) = 54\<close>.
\<close>

theorem scenario_report:
  assumes "length xs = 6" and "length ys = 11"
    and "read_activities env ''s1'' = Inr (alice_questions xs @ bob_chats ys)"
  shows "\<exists>r. get_engagement_analytics env ''s1'' now = Inr r \<and>
             field ''activity_breakdown'' r =
               Some (JObj [(''question'', JInt 6), (''chat_message'', JInt 11)]) \<and>
             field ''unique_participants'' r = Some (JInt 2) \<and>
             field ''recommendations'' r =
               Some (JList [JStr ''Many questions being asked - consider extending Q&A time'',
                            JStr ''Good chat interaction'']) \<and>
             field ''engagement_score'' r = Some (JInt 54)"
  using assms(3) scenario_calculated[OF assms(1,2)]
  by (simp add: get_engagement_analytics_def)

theorem scenario_report_witness:
  "length six_questions = 6 \<and> length eleven_chats = 11 \<and>
   read_activities (dynamodb_returning (alice_questions six_questions @ bob_chats eleven_chats)) ''s1'' =
     Inr (alice_questions six_questions @ bob_chats eleven_chats) \<and>
   (\<exists>r. get_engagement_analytics
          (dynamodb_returning (alice_questions six_questions @ bob_chats eleven_chats)) ''s1''
          ''2024-05-01T10:00:00'' = Inr r \<and>
        field ''activity_breakdown'' r =
          Some (JObj [(''question'', JInt 6), (''chat_message'', JInt 11)]) \<and>
        field ''unique_participants'' r = Some (JInt 2) \<and>
        field ''recommendations'' r =
          Some (JList [JStr ''Many questions being asked - consider extending Q&A time'',
                       JStr ''Good chat interaction'']) \<and>
        field ''engagement_score'' r = Some (JInt 54))"
  using scenario_lengths read_dynamodb_returning
    scenario_report [OF scenario_lengths read_dynamodb_returning]
  by (intro conjI)

text \<open>The score of the scenario is 54, not the 37 that the claim states.\<close>

theorem scenario_score_counterexample:
  "get_engagement_analytics (dynamodb_returning scenario_records) ''s1'' ''2024-05-01T10:00:00'' =
     Inr (calculate_analytics scenario_records ''s1'' ''2024-05-01T10:00:00'') \<and>
   field ''engagement_score'' (calculate_analytics scenario_records ''s1'' ''2024-05-01T10:00:00'') =
     Some (JInt 54) \<and>
   field ''engagement_score'' (calculate_analytics scenario_records ''s1'' ''2024-05-01T10:00:00'') \<noteq>
     Some (JInt 37)"
  by (simp add: get_engagement_analytics_def read_dynamodb_returning scenario_records_def
      scenario_calculated [OF scenario_lengths])

text \<open>
  Claim C3: for the records of any sequence of track calls in one session,
  \<open>get_participants\<close> returns exactly one summary per distinct participant name, and the
  \<open>activity_count\<close> of each summary is the number of records of that name.
\<close>

theorem participants_one_summary_per_name:
  assumes "read_activities env session_id = Inr (map (tracked session_id) calls)"
  shows "\<exists>r ss.
           get_participants env session_id now = Inr r \<and>
           field ''participants'' r = Some (JList (map summary_json ss)) \<and>
           field ''total_participants'' r =
             Some (JInt (int (card (set (map call_participant calls))))) \<and>
           distinct (map name ss) \<and>
           set (map name ss) = set (map call_participant calls) \<and>
           map activity_count ss =
             map (\<lambda>n. int (count_list (map call_participant calls) n)) (map name ss)"
proof -
  let ?names = "first_names (map call_participant calls)"
  let ?ps = "map (\<lambda>n. (n, summary_of calls n)) ?names"
  have r: "get_participants env session_id now = Inr (participants_report ?ps session_id now)"
    using assms by (rule get_participants_tracked)
  have n: "map name (map snd ?ps) = ?names"
    by (simp add: comp_def summary_of_def)
  have c: "map activity_count (map snd ?ps) =
      map (\<lambda>n. int (count_list (map call_participant calls) n)) (map name (map snd ?ps))"
    by (simp add: comp_def summary_of_def length_calls_of)
  have "distinct (map name (map snd ?ps))"
    and "set (map name (map snd ?ps)) = set (map call_participant calls)"
    unfolding n by simp_all
  moreover have "field ''total_participants'' (participants_report ?ps session_id now) =
      Some (JInt (int (card (set (map call_participant calls)))))"
    by (simp add: field_participants_report length_first_names)
  ultimately show ?thesis
    using r c field_participants_report(1)[of ?ps session_id now] by blast
qed

theorem participants_one_summary_per_name_witness:
  "read_activities (dynamodb_returning (map (tracked ''s1'') sample_calls)) ''s1'' =
     Inr (map (tracked ''s1'') sample_calls) \<and>
   (\<exists>r ss.
      get_participants (dynamodb_returning (map (tracked ''s1'') sample_calls)) ''s1''
        ''2024-05-01T10:00:00'' = Inr r \<and>
      field ''participants'' r = Some (JList (map summary_json ss)) \<and>
      field ''total_participants'' r =
        Some (JInt (int (card (set (map call_participant sample_calls))))) \<and>
      distinct (map name ss) \<and>
      set (map name ss) = set (map call_participant sample_calls) \<and>
      map activity_count ss =
        map (\<lambda>n. int (count_list (map call_participant sample_calls) n)) (map name ss))"
  by (rule conjI [OF read_dynamodb_returning
        participants_one_summary_per_name [OF read_dynamodb_returning]])

text \<open>
  Claim C4, as amended: in every summary of \<open>get_participants\<close>, \<open>join_time\<close> is the
  timestamp of the participant's first record in the order the records are read and
  \<open>last_activity\<close> that of the last one; when the records are read in timestamp order,
  these are the participant's earliest and latest timestamp and \<open>join_time\<close> is at most
  \<open>last_activity\<close>. Timestamps are ISO-8601 strings, compared as strings.
\<close>

theorem participants_join_and_last_activity:
  assumes "read_activities env session_id = Inr (map (tracked session_id) calls)"
  shows "\<exists>r ss.
           get_participants env session_id now = Inr r \<and>
           field ''participants'' r = Some (JList (map summary_json ss)) \<and>
           set (map name ss) = set (map call_participant calls) \<and>
           (\<forall>s \<in> set ss.
              join_time s = call_time (hd (calls_of (name s) calls)) \<and>
              last_activity s = call_time (last (calls_of (name s) calls))) \<and>
           (sorted (map call_time calls) \<longrightarrow>
              (\<forall>s \<in> set ss.
                 join_time s = Min (call_time ` set (calls_of (name s) calls)) \<and>
                 last_activity s = Max (call_time ` set (calls_of (name s) calls)) \<and>
                 join_time s \<le> last_activity s))"
proof -
  let ?names = "first_names (map call_participant calls)"
  let ?ps = "map (\<lambda>n. (n, summary_of calls n)) ?names"
  have r: "get_participants env session_id now = Inr (participants_report ?ps session_id now)"
    using assms(1) by (rule get_participants_tracked)
  have n: "set (map name (map snd ?ps)) = set (map call_participant calls)"
    by (simp add: comp_def summary_of_def)
  have key: "\<exists>k. k \<in> set (map call_participant calls) \<and> s = summary_of calls k"
    if "s \<in> set (map snd ?ps)" for s
    using that by auto
  have order: "join_time s = call_time (hd (calls_of (name s) calls)) \<and>
        last_activity s = call_time (last (calls_of (name s) calls))"
    if member: "s \<in> set (map snd ?ps)" for s
    using key[OF member] by (auto simp: summary_of_def)
  have chrono: "join_time s = Min (call_time ` set (calls_of (name s) calls)) \<and>
        last_activity s = Max (call_time ` set (calls_of (name s) calls)) \<and>
        join_time s \<le> last_activity s"
    if member: "s \<in> set (map snd ?ps)" and sorted: "sorted (map call_time calls)" for s
  proof -
    obtain k where k: "k \<in> set (map call_participant calls)" and s: "s = summary_of calls k"
      using key[OF member] by blast
    show ?thesis
      using sorted_calls_of[OF sorted k] by (simp add: s summary_of_def)
  qed
  show ?thesis
    using r n field_participants_report(1)[of ?ps session_id now] order chrono by blast
qed

theorem participants_join_and_last_activity_witness:
  "read_activities (dynamodb_returning (map (tracked ''s1'') sample_calls)) ''s1'' =
     Inr (map (tracked ''s1'') sample_calls) \<and>
   sorted (map call_time sample_calls) \<and>
   (\<exists>r ss.
      get_participants (dynamodb_returning (map (tracked ''s1'') sample_calls)) ''s1''
        ''2024-05-01T10:00:00'' = Inr r \<and>
      field ''participants'' r = Some (JList (map summary_json ss)) \<and>
      set (map name ss) = set (map call_participant sample_calls) \<and>
      (\<forall>s \<in> set ss.
         join_time s = call_time (hd (calls_of (name s) sample_calls)) \<and>
         last_activity s = call_time (last (calls_of (name s) sample_calls)) \<and>
         join_time s = Min (call_time ` set (calls_of (name s) sample_calls)) \<and>
         last_activity s = Max (call_time ` set (calls_of (name s) sample_calls)) \<and>
         join_time s \<le> last_activity s))"
proof -
  obtain r ss where
    "get_participants (dynamodb_returning (map (tracked ''s1'') sample_calls)) ''s1''
        ''2024-05-01T10:00:00'' = Inr r"
    and "field ''participants'' r = Some (JList (map summary_json ss))"
    and "set (map name ss) = set (map call_participant sample_calls)"
    and "\<forall>s \<in> set ss.
         join_time s = call_time (hd (calls_of (name s) sample_calls)) \<and>
         last_activity s = call_time (last (calls_of (name s) sample_calls))"
    and "sorted (map call_time sample_calls) \<longrightarrow>
         (\<forall>s \<in> set ss.
            join_time s = Min (call_time ` set (calls_of (name s) sample_calls)) \<and>
            last_activity s = Max (call_time ` set (calls_of (name s) sample_calls)) \<and>
            join_time s \<le> last_activity s)"
    using participants_join_and_last_activity [OF read_dynamodb_returning,
        of "''s1''" sample_calls "''2024-05-01T10:00:00''"]
    by blast
  then show ?thesis
    using read_dynamodb_returning sample_calls_sorted by blast
qed

text \<open>
  On the CloudWatch fallback the events come in the order they were logged. After the
  clock was set back, the first record read carries the later local time: \<open>join_time\<close>
  is neither the earliest timestamp nor at most \<open>last_activity\<close>.
\<close>

theorem participants_join_after_last_counterexample:
  "get_participants (logs_fallback (Inr clock_set_back_events)) ''s1'' ''2024-10-27T02:00:00'' =
     Inr (JObj
       [(''total_participants'', JInt 1),
        (''participants'', JList
           [JObj [(''name'', JStr ''Alice''), (''status'', JStr ''active''),
                  (''join_time'', JStr ''2024-10-27T01:59:30''),
                  (''activity_count'', JInt 2),
                  (''last_activity'', JStr ''2024-10-27T01:00:10'')]]),
        (''active_count'', JInt 1),
        (''timestamp'', JStr ''2024-10-27T02:00:00''),
        (''session_id'', JStr ''s1'')]) \<and>
   \<not> (''2024-10-27T01:59:30'' \<le> ''2024-10-27T01:00:10'') \<and>
   ''2024-10-27T01:00:10'' < ''2024-10-27T01:59:30''"
  by (simp add: get_participants_def get_participants_try_def get_table_logs_fallback)
     (simp add: logs_fallback_def clock_set_back_events_def activity_def add_participant_def
        getitem_def participants_report_def summary_json_def less_eq_char_def less_char_def)

text \<open>
  Claim C5: the \<open>top_participants\<close> ranking reported by \<open>get_engagement_analytics\<close> is the
  first 5 entries (all of them when there are fewer) of the list of all participants of the
  session with their record counts, sorted by count in descending order, where among equal
  counts the participant who appears first in the record sequence comes first.
\<close>

theorem top_participants_ranking:
  assumes "read_activities env session_id = Inr activities"
  shows "\<exists>r full.
           get_engagement_analytics env session_id now = Inr r \<and>
           field ''top_participants'' r = Some (counts_json (take 5 full)) \<and>
           length (take 5 full) = min 5 (card (set (map participant_of activities))) \<and>
           distinct (map fst full) \<and>
           set (map fst full) = set (map participant_of activities) \<and>
           map snd full =
             map (\<lambda>n. int (count_list (map participant_of activities) n)) (map fst full) \<and>
           sorted_wrt (\<lambda>a b. snd b \<le> snd a) full \<and>
           sorted_wrt (\<lambda>a b. snd b < snd a \<or>
             (snd a = snd b \<and>
              first_seen (map participant_of activities) (fst a) <
              first_seen (map participant_of activities) (fst b))) full"
proof -
  let ?full = "sorted_reverse snd (tally (map participant_of activities))"
  have "get_engagement_analytics env session_id now =
          Inr (calculate_analytics activities session_id now)"
    using assms by (simp add: get_engagement_analytics_def)
  moreover have "field ''top_participants'' (calculate_analytics activities session_id now) =
      Some (counts_json (take 5 ?full))"
    by (simp add: calculate_analytics_tally)
  moreover have "length (take 5 ?full) = min 5 (card (set (map participant_of activities)))"
    using full_ranking(3)[of "map participant_of activities"] by simp
  ultimately show ?thesis
    using full_ranking[of "map participant_of activities"] by blast
qed

theorem top_participants_ranking_witness:
  "read_activities (dynamodb_returning tie_records) ''s1'' = Inr tie_records \<and>
   (\<exists>r full.
      get_engagement_analytics (dynamodb_returning tie_records) ''s1'' ''2024-05-01T10:00:00'' = Inr r \<and>
      field ''top_participants'' r = Some (counts_json (take 5 full)) \<and>
      length (take 5 full) = min 5 (card (set (map participant_of tie_records))) \<and>
      distinct (map fst full) \<and>
      set (map fst full) = set (map participant_of tie_records) \<and>
      map snd full =
        map (\<lambda>n. int (count_list (map participant_of tie_records) n)) (map fst full) \<and>
      sorted_wrt (\<lambda>a b. snd b \<le> snd a) full \<and>
      sorted_wrt (\<lambda>a b. snd b < snd a \<or>
        (snd a = snd b \<and>
         first_seen (map participant_of tie_records) (fst a) <
         first_seen (map participant_of tie_records) (fst b))) full)"
  by (rule conjI [OF read_dynamodb_returning
        top_participants_ranking [OF read_dynamodb_returning]])

text \<open>
  Claim C6: appending a record to the records of a session never lowers the engagement
  score reported by \<open>get_engagement_analytics\<close>, and the score never exceeds 100.
\<close>

theorem engagement_score_monotone:
  assumes "read_activities env session_id = Inr activities"
    and "read_activities env' session_id = Inr (activities @ [a])"
  shows "\<exists>r r' s s'.
           get_engagement_analytics env session_id now = Inr r \<and>
           get_engagement_analytics env' session_id now' = Inr r' \<and>
           field ''engagement_score'' r = Some (JInt s) \<and>
           field ''engagement_score'' r' = Some (JInt s') \<and>
           s \<le> s' \<and> s \<le> 100 \<and> s' \<le> 100"
  using assms score_mono[of activities a] score_le_100[of activities]
    score_le_100[of "activities @ [a]"]
  by (simp add: get_engagement_analytics_def score_field)

theorem engagement_score_monotone_witness:
  "read_activities (dynamodb_returning [activity ''2024-05-01T09:00:00'' ''Alice'' ''question'' '''' ''s1'']) ''s1'' =
     Inr [activity ''2024-05-01T09:00:00'' ''Alice'' ''question'' '''' ''s1''] \<and>
   (\<exists>r r' s s'.
      get_engagement_analytics
        (dynamodb_returning [activity ''2024-05-01T09:00:00'' ''Alice'' ''question'' '''' ''s1'']) ''s1''
        ''2024-05-01T10:00:00'' = Inr r \<and>
      get_engagement_analytics
        (dynamodb_returning ([activity ''2024-05-01T09:00:00'' ''Alice'' ''question'' '''' ''s1''] @
           [activity ''2024-05-01T09:00:05'' ''Bob'' ''chat_message'' ''hi'' ''s1''])) ''s1''
        ''2024-05-01T10:00:01'' = Inr r' \<and>
      field ''engagement_score'' r = Some (JInt s) \<and>
      field ''engagement_score'' r' = Some (JInt s') \<and>
      s \<le> s' \<and> s \<le> 100 \<and> s' \<le> 100)"
  by (rule conjI [OF read_dynamodb_returning
        engagement_score_monotone [OF read_dynamodb_returning read_dynamodb_returning]])

text \<open>
  Claim C7: for a session with no activity record, \<open>get_engagement_analytics\<close> reports
  engagement score 0, 0 activities, 0 participants and the three low-engagement lines.
\<close>

theorem empty_session_report:
  assumes "read_activities env session_id = Inr []"
  shows "get_engagement_analytics env session_id now =
           Inr (JObj [(''total_activities'', JInt 0),
                      (''unique_participants'', JInt 0),
                      (''engagement_score'', JInt 0),
                      (''activity_breakdown'', JObj []),
                      (''top_participants'', JObj []),
                      (''recommendations'',
                         JList [JStr ''Low engagement - consider encouraging more participation'',
                                JStr ''Few questions - consider prompting for questions'',
                                JStr ''Encourage more chat participation'']),
                      (''session_id'', JStr session_id),
                      (''timestamp'', JStr now)])"
  using assms
  by (simp add: get_engagement_analytics_def calculate_analytics_def recommendations_def
      counts_json_def sorted_reverse_def)

theorem empty_session_report_witness:
  "read_activities (logs_fallback (Inl (ClientError ''ResourceNotFoundException''))) ''s1'' = Inr [] \<and>
   get_engagement_analytics (logs_fallback (Inl (ClientError ''ResourceNotFoundException''))) ''s1''
       ''2024-05-01T10:00:00'' =
     Inr (JObj [(''total_activities'', JInt 0),
                (''unique_participants'', JInt 0),
                (''engagement_score'', JInt 0),
                (''activity_breakdown'', JObj []),
                (''top_participants'', JObj []),
                (''recommendations'',
                   JList [JStr ''Low engagement - consider encouraging more participation'',
                          JStr ''Few questions - consider prompting for questions'',
                          JStr ''Encourage more chat participation'']),
                (''session_id'', JStr ''s1''),
                (''timestamp'', JStr ''2024-05-01T10:00:00'')])"
proof -
  have h: "read_activities (logs_fallback (Inl (ClientError ''ResourceNotFoundException''))) ''s1'' = Inr []"
    by (simp add: read_activities_def get_table_logs_fallback) (simp add: logs_fallback_def)
  show ?thesis
    using h empty_session_report[OF h] by simp
qed

text \<open>
  Claim C8, as amended: when the store read fails (the DynamoDB query, or the log read of
  the fallback), \<open>get_participants\<close> returns a report with no participant and raises
  nothing. The report carries the error field, except when the log read of the fallback
  fails with a \<open>ClientError\<close>: that failure is taken for an empty session and the
  ordinary report is returned, without an error field.
\<close>

theorem participants_read_failure:
  assumes "(get_dynamodb_table env = Inr (Some Table) \<and> table_query env session_id = Inl e) \<or>
           (get_dynamodb_table env = Inr None \<and> logs_client env = None \<and>
            log_events env session_id = Inl e)"
  shows "\<exists>r. get_participants env session_id now = Inr r \<and>
             field ''participants'' r = Some (JList []) \<and>
             field ''total_participants'' r = Some (JInt 0) \<and>
             field ''error'' r =
               (if get_dynamodb_table env = Inr None \<and> is_client_error e then None
                else Some (JStr (''Failed to get participants: '' @ str e)))"
  using assms
proof (elim disjE conjE)
  assume "get_dynamodb_table env = Inr (Some Table)" and "table_query env session_id = Inl e"
  then have "get_participants env session_id now = Inr (participants_failure e now)"
    by (simp add: get_participants_def get_participants_try_def)
  then show ?thesis
    using \<open>get_dynamodb_table env = Inr (Some Table)\<close> by (simp add: field_participants_failure)
next
  assume t: "get_dynamodb_table env = Inr None" and l: "logs_client env = None"
    and f: "log_events env session_id = Inl e"
  show ?thesis
  proof (cases "is_client_error e")
    case True
    then obtain m where "e = ClientError m" by (cases e) simp_all
    then have "get_participants env session_id now = Inr (participants_report [] session_id now)"
      using t l f by (simp add: get_participants_def get_participants_try_def)
    then show ?thesis
      using t True by (simp add: field_participants_report)
  next
    case False
    then have "get_participants env session_id now = Inr (participants_failure e now)"
      using t l f by (cases e) (simp_all add: get_participants_def get_participants_try_def)
    then show ?thesis
      using False by (simp add: field_participants_failure)
  qed
qed

theorem participants_read_failure_witness:
  "get_dynamodb_table (dynamodb_failing (ClientError ''ProvisionedThroughputExceededException'')) =
     Inr (Some Table) \<and>
   table_query (dynamodb_failing (ClientError ''ProvisionedThroughputExceededException'')) ''missing'' =
     Inl (ClientError ''ProvisionedThroughputExceededException'') \<and>
   (\<exists>r. get_participants (dynamodb_failing (ClientError ''ProvisionedThroughputExceededException''))
          ''missing'' ''2024-05-01T10:00:00'' = Inr r \<and>
        field ''participants'' r = Some (JList []) \<and>
        field ''total_participants'' r = Some (JInt 0) \<and>
        field ''error'' r =
          Some (JStr ''Failed to get participants: ProvisionedThroughputExceededException''))"
  using participants_read_failure [OF read_failed_dynamodb,
      of "ClientError ''ProvisionedThroughputExceededException''" "''missing''" "''2024-05-01T10:00:00''"]
  by (simp add: get_dynamodb_table_def dynamodb_failing_def)

text \<open>
  The log stream of session \<open>missing\<close> does not exist and the log read raises a
  \<open>ClientError\<close>: the report has no error field.
\<close>

theorem participants_read_failure_counterexample:
  "get_dynamodb_table (logs_fallback (Inl (ClientError ''ResourceNotFoundException''))) = Inr None \<and>
   log_events (logs_fallback (Inl (ClientError ''ResourceNotFoundException''))) ''missing'' =
     Inl (ClientError ''ResourceNotFoundException'') \<and>
   get_participants (logs_fallback (Inl (ClientError ''ResourceNotFoundException''))) ''missing''
       ''2024-05-01T10:00:00'' =
     Inr (JObj [(''total_participants'', JInt 0),
                (''participants'', JList []),
                (''active_count'', JInt 0),
                (''timestamp'', JStr ''2024-05-01T10:00:00''),
                (''session_id'', JStr ''missing'')]) \<and>
   field ''error''
     (JObj [(''total_participants'', JInt 0),
            (''participants'', JList []),
            (''active_count'', JInt 0),
            (''timestamp'', JStr ''2024-05-01T10:00:00''),
            (''session_id'', JStr ''missing'')]) = None"
  by (simp add: get_participants_def get_participants_try_def get_table_logs_fallback)
     (simp add: logs_fallback_def participants_report_def)

text \<open>
  Claim C9: on the success path the recommendations hold between 1 and 3 lines, and
  exactly one of them is a chat line (the good-chat line or the encourage-chat line), which is
  the last one.
\<close>

theorem recommendations_never_empty:
  assumes "read_activities env session_id = Inr activities"
  shows "\<exists>r recs.
           get_engagement_analytics env session_id now = Inr r \<and>
           field ''recommendations'' r = Some (JList (map JStr recs)) \<and>
           1 \<le> length recs \<and> length recs \<le> 3 \<and>
           (last recs = ''Good chat interaction'' \<or> last recs = ''Encourage more chat participation'') \<and>
           count_list recs ''Good chat interaction'' +
             count_list recs ''Encourage more chat participation'' = 1"
proof -
  let ?recs = "recommendations (score_of activities)
     (int (count_list (map activity_of activities) ''question''))
     (int (count_list (map activity_of activities) ''chat_message''))"
  have "get_engagement_analytics env session_id now = Inr (calculate_analytics activities session_id now)"
    using assms by (simp add: get_engagement_analytics_def)
  moreover have "field ''recommendations'' (calculate_analytics activities session_id now) =
      Some (JList (map JStr ?recs))"
    by (simp add: calculate_analytics_tally)
  moreover have "last ?recs = ''Good chat interaction'' \<or> last ?recs = ''Encourage more chat participation''"
    using recommendations_shape[of "score_of activities"] by (metis (full_types))
  ultimately show ?thesis
    using recommendations_shape[of "score_of activities"] by blast
qed

theorem recommendations_never_empty_witness:
  "read_activities
     (dynamodb_returning [activity ''2024-05-01T09:00:00'' ''Alice'' ''question'' '''' ''s1'']) ''s1'' =
     Inr [activity ''2024-05-01T09:00:00'' ''Alice'' ''question'' '''' ''s1''] \<and>
   (\<exists>r recs.
      get_engagement_analytics
        (dynamodb_returning [activity ''2024-05-01T09:00:00'' ''Alice'' ''question'' '''' ''s1''])
        ''s1'' ''2024-05-01T10:00:00'' = Inr r \<and>
      field ''recommendations'' r = Some (JList (map JStr recs)) \<and>
      1 \<le> length recs \<and> length recs \<le> 3 \<and>
      (last recs = ''Good chat interaction'' \<or> last recs = ''Encourage more chat participation'') \<and>
      count_list recs ''Good chat interaction'' +
        count_list recs ''Encourage more chat participation'' = 1)"
  by (rule conjI [OF read_dynamodb_returning
        recommendations_never_empty [OF read_dynamodb_returning]])

text \<open>
  Claim C10: when \<open>get_engagement_analytics\<close> fails, its report holds the three zeroed
  counts, the error description and the timestamp, and nothing else: \<open>activity_breakdown\<close>,
  \<open>top_participants\<close> and \<open>recommendations\<close> are absent, while every success report has them.
\<close>

theorem analytics_failure_report:
  assumes "read_activities env session_id = Inl e"
  shows "get_engagement_analytics env session_id now =
           Inr (JObj [(''total_activities'', JInt 0),
                      (''unique_participants'', JInt 0),
                      (''engagement_score'', JInt 0),
                      (''error'', JStr (''Analytics generation failed: '' @ str e)),
                      (''timestamp'', JStr now)]) \<and>
         field ''activity_breakdown'' (analytics_failure e now) = None \<and>
         field ''top_participants'' (analytics_failure e now) = None \<and>
         field ''recommendations'' (analytics_failure e now) = None \<and>
         (\<forall>activities sid now'.
            field ''activity_breakdown'' (calculate_analytics activities sid now') \<noteq> None \<and>
            field ''top_participants'' (calculate_analytics activities sid now') \<noteq> None \<and>
            field ''recommendations'' (calculate_analytics activities sid now') \<noteq> None)"
  using assms
  by (simp add: get_engagement_analytics_def analytics_failure_def calculate_analytics_tally)

theorem analytics_failure_report_witness:
  "read_activities (dynamodb_failing (OtherException ''Read timeout on endpoint URL'')) ''s1'' =
     Inl (OtherException ''Read timeout on endpoint URL'') \<and>
   get_engagement_analytics (dynamodb_failing (OtherException ''Read timeout on endpoint URL'')) ''s1''
       ''2024-05-01T10:00:00'' =
     Inr (JObj [(''total_activities'', JInt 0),
                (''unique_participants'', JInt 0),
                (''engagement_score'', JInt 0),
                (''error'', JStr ''Analytics generation failed: Read timeout on endpoint URL''),
                (''timestamp'', JStr ''2024-05-01T10:00:00'')])"
  using analytics_failure_report[OF read_dynamodb_failing,
      of "OtherException ''Read timeout on endpoint URL''" "''s1''" "''2024-05-01T10:00:00''"]
  by (simp add: read_dynamodb_failing)

end
